theory Spec2Isabelle
  imports Main
begin

section \<open>The emscripten response wrapper of urllib3\<close>

text \<open>
  A shallow embedding of \<^verbatim>\<open>urllib3/contrib/emscripten/response.py\<close>.
  Python \<^verbatim>\<open>bytes\<close> and \<^verbatim>\<open>str\<close> values are character lists (code points below 256),
  Python integers are \<open>int\<close>, \<^verbatim>\<open>None\<close> is \<open>None\<close>. Every method takes the
  wrapper object and returns the object as the call leaves it, together with the value
  returned or the exception raised: a Python exception does not undo the attribute
  assignments made before it.
\<close>

subsection \<open>Exceptions\<close>

datatype error =
    NameError string      \<comment> \<open>a global name that the module never binds\<close>
  | TypeError string
  | ValueError string
  | KeyError
  | UnicodeDecodeError
  | JSONDecodeError

type_synonym bytes = string

subsection \<open>The builtin \<^verbatim>\<open>int(str)\<close> and \<^verbatim>\<open>str.split(",")\<close>\<close>

text \<open>
  \<^verbatim>\<open>int(s)\<close> on a string in base 10: white space is stripped at both ends, one sign may
  follow, then decimal digits, where single underscores may stand between digits. A string
  with more than 4300 digits is refused (the interpreter's default limit). Everything else
  raises \<^verbatim>\<open>ValueError\<close>, which is \<open>None\<close> here. The white space of code points below
  256 is tab, line feed, vertical tab, form feed, carriage return, space, U+0085 and
  U+00A0.
\<close>

definition is_space :: "char \<Rightarrow> bool" where
  "is_space c \<longleftrightarrow> (of_char c :: nat) \<in> {9, 10, 11, 12, 13, 32, 133, 160}"

definition is_digit :: "char \<Rightarrow> bool" where
  "is_digit c \<longleftrightarrow> 48 \<le> (of_char c :: nat) \<and> (of_char c :: nat) \<le> 57"

definition digit_value :: "char \<Rightarrow> nat" where
  "digit_value c = of_char c - 48"

fun digits_from :: "nat \<Rightarrow> string \<Rightarrow> nat option" where
  "digits_from acc [] = Some acc"
| "digits_from acc (c # cs) =
     (if is_digit c then digits_from (10 * acc + digit_value c) cs
      else if c = CHR ''_'' then
        (case cs of
           [] \<Rightarrow> None
         | d # ds \<Rightarrow> if is_digit d then digits_from (10 * acc + digit_value d) ds else None)
      else None)"

definition parse_digits :: "string \<Rightarrow> nat option" where
  "parse_digits s =
     (case s of
        [] \<Rightarrow> None
      | c # cs \<Rightarrow> if is_digit c then digits_from (digit_value c) cs else None)"

definition strip :: "string \<Rightarrow> string" where
  "strip s = rev (dropWhile is_space (rev (dropWhile is_space s)))"

definition max_str_digits :: nat where
  "max_str_digits = 4300"

definition py_int :: "string \<Rightarrow> int option" where
  "py_int s =
     (let t = strip s in
      if max_str_digits < length (filter is_digit t) then None
      else case t of
        [] \<Rightarrow> None
      | c # cs \<Rightarrow>
          if c = CHR ''-'' then map_option (\<lambda>n. - int n) (parse_digits cs)
          else if c = CHR ''+'' then map_option int (parse_digits cs)
          else map_option int (parse_digits t))"

text \<open>\<^verbatim>\<open>s.split(",")\<close>: the pieces between the commas, at least one piece.\<close>

fun split_comma :: "string \<Rightarrow> string list" where
  "split_comma [] = [[]]"
| "split_comma (c # cs) =
     (if c = CHR '','' then [] # split_comma cs
      else case split_comma cs of
        [] \<Rightarrow> [[c]]
      | p # ps \<Rightarrow> (c # p) # ps)"

text \<open>
  \<^verbatim>\<open>int(val) for val in ...\<close>: the values in order; the first value that does not parse
  raises \<^verbatim>\<open>ValueError\<close> and ends the comprehension.
\<close>

fun int_all :: "string list \<Rightarrow> int list option" where
  "int_all [] = Some []"
| "int_all (v # vs) =
     (case py_int v of
        None \<Rightarrow> None
      | Some n \<Rightarrow> (case int_all vs of None \<Rightarrow> None | Some ns \<Rightarrow> Some (n # ns)))"

subsection \<open>The response object\<close>

text \<open>
  \<^verbatim>\<open>EmscriptenResponse.body\<close> is either \<^verbatim>\<open>bytes\<close> or an \<^verbatim>\<open>IOBase\<close> stream. A stream is
  modelled as \<^verbatim>\<open>io.BytesIO\<close> behaves: the bytes not yet read and the closed flag.
  \<open>read_calls\<close> is a ghost field that counts the calls of the stream's \<^verbatim>\<open>read\<close>; no
  method of the wrapper looks at it.
\<close>

record stream =
  pending :: bytes
  is_closed :: bool
  read_calls :: nat

datatype body = Bytes bytes | IOStream stream

text \<open>\<^verbatim>\<open>BytesIO(b)\<close>\<close>

definition BytesIO :: "bytes \<Rightarrow> stream" where
  "BytesIO b = \<lparr>pending = b, is_closed = False, read_calls = 0\<rparr>"

text \<open>
  \<^verbatim>\<open>stream.read(amt)\<close>: everything that is left when \<^verbatim>\<open>amt\<close> is \<^verbatim>\<open>None\<close> or negative,
  at most \<^verbatim>\<open>amt\<close> bytes otherwise; \<^verbatim>\<open>ValueError\<close> on a closed stream.
\<close>

definition stream_read :: "stream \<Rightarrow> int option \<Rightarrow> stream \<times> (error + bytes)" where
  "stream_read s amt =
     (if is_closed s then
        (s\<lparr>read_calls := Suc (read_calls s)\<rparr>, Inl (ValueError ''I/O operation on closed file.''))
      else
        let n = (case amt of
                   None \<Rightarrow> length (pending s)
                 | Some k \<Rightarrow> if k < 0 then length (pending s) else min (nat k) (length (pending s)))
        in (s\<lparr>pending := drop n (pending s), read_calls := Suc (read_calls s)\<rparr>,
            Inr (take n (pending s))))"

text \<open>
  The number of bytes that \<^verbatim>\<open>stream.read(amt)\<close> takes from an open stream with \<open>n\<close>
  bytes left.
\<close>

definition bytes_taken :: "nat \<Rightarrow> int option \<Rightarrow> nat" where
  "bytes_taken n amt =
     (case amt of None \<Rightarrow> n | Some k \<Rightarrow> if k < 0 then n else min (nat k) n)"

text \<open>
  \<^verbatim>\<open>Retry.history\<close> is a tuple of \<^verbatim>\<open>RequestHistory\<close> entries; only the redirect location
  is read here.
\<close>

record request_history =
  rh_method :: "string option"
  rh_url :: "string option"
  rh_status :: "int option"
  redirect_location :: "string option"

record retry =
  total :: "int option"
  history :: "request_history list"

text \<open>
  The attributes of \<^verbatim>\<open>EmscriptenHttpResponseWrapper\<close>. A connection is an identifier.
  \<open>pool\<close> is \<^verbatim>\<open>_pool\<close>: \<open>None\<close>, or the pool with the connections that were handed
  to its \<^verbatim>\<open>_put_conn\<close>, oldest first. \<open>headers\<close>, \<open>status\<close> and \<open>chunked\<close> are
  the attributes that \<^verbatim>\<open>BaseHTTPResponse.__init__\<close> sets; the header names are the keys
  in lower case.
\<close>

type_synonym conn = nat

record wrapper =
  pool :: "conn list option"
  body_cache :: "bytes option"            \<comment> \<open>\<^verbatim>\<open>_body\<close>\<close>
  response_body :: body                   \<comment> \<open>\<^verbatim>\<open>_response.body\<close>\<close>
  url :: "string option"                  \<comment> \<open>\<^verbatim>\<open>_url\<close>\<close>
  connection :: "conn option"             \<comment> \<open>\<^verbatim>\<open>_connection\<close>\<close>
  retries :: "retry option"               \<comment> \<open>\<^verbatim>\<open>_retries\<close>\<close>
  headers :: "string \<rightharpoonup> string"
  status :: int
  chunked :: bool
  length_remaining :: "int option"

subsection \<open>\<^verbatim>\<open>retries\<close> setter\<close>

definition set_retries :: "wrapper \<Rightarrow> retry option \<Rightarrow> wrapper" where
  "set_retries w r =
     (let w1 = (case r of
                  None \<Rightarrow> w
                | Some rt \<Rightarrow>
                    if history rt \<noteq> [] then w\<lparr>url := redirect_location (last (history rt))\<rparr>
                    else w)
      in w1\<lparr>retries := r\<rparr>)"

subsection \<open>\<^verbatim>\<open>_init_length\<close>\<close>

text \<open>
  The module binds neither \<^verbatim>\<open>log\<close> nor \<^verbatim>\<open>InvalidHeader\<close>: evaluating either name raises
  \<^verbatim>\<open>NameError\<close>, which no handler of the method catches. The result carries the length
  and the messages given to \<^verbatim>\<open>log.warning\<close> by a call that returns.
\<close>

definition no_body :: "int \<Rightarrow> string option \<Rightarrow> bool" where
  "no_body st request_method \<longleftrightarrow>
     st = 204 \<or> st = 304 \<or> (100 \<le> st \<and> st < 200) \<or> request_method = Some ''HEAD''"

definition finish_length :: "wrapper \<Rightarrow> string option \<Rightarrow> int option \<Rightarrow> error + (int option \<times> string list)" where
  "finish_length w request_method len =
     Inr (if no_body (status w) request_method then Some 0 else len, [])"

definition init_length :: "wrapper \<Rightarrow> string option \<Rightarrow> error + (int option \<times> string list)" where
  "init_length w request_method =
     (case headers w ''content-length'' of
        None \<Rightarrow> finish_length w request_method None
      | Some content_length \<Rightarrow>
          if chunked w then Inl (NameError ''log'')
          else
            (case int_all (split_comma content_length) of
               None \<Rightarrow> finish_length w request_method None
             | Some vals \<Rightarrow>
                 let lengths = remdups vals in
                 if 1 < length lengths then Inl (NameError ''InvalidHeader'')
                 else
                   (case lengths of
                      [] \<Rightarrow> Inl KeyError
                    | l # _ \<Rightarrow> finish_length w request_method (if l < 0 then None else Some l))))"

text \<open>
  The values of a Content-Length header disagree when each of them is an integer for
  \<^verbatim>\<open>int\<close> and two of them are different integers: the set \<^verbatim>\<open>lengths\<close> then has more than
  one element.
\<close>

definition values_disagree :: "string \<Rightarrow> bool" where
  "values_disagree content_length \<longleftrightarrow>
     (\<forall>v \<in> set (split_comma content_length). py_int v \<noteq> None)
     \<and> (\<exists>a \<in> set (split_comma content_length). \<exists>b \<in> set (split_comma content_length).
           py_int a \<noteq> py_int b)"

subsection \<open>\<^verbatim>\<open>__init__\<close>\<close>

text \<open>
  The constructor stores its arguments, runs the constructor of the base class and then
  evaluates \<^verbatim>\<open>self._init_length()\<close>, without the argument that the method requires: the
  call raises \<^verbatim>\<open>TypeError\<close> before the body of the method runs, for every response, and
  no wrapper is returned.
\<close>

record emscripten_response =
  status_code :: int
  response_headers :: "string \<rightharpoonup> string"
  raw_body :: body
  request_method :: "string option"

definition init_wrapper :: "emscripten_response \<Rightarrow> string option \<Rightarrow> conn option \<Rightarrow> error + wrapper" where
  "init_wrapper internal_response u c =
     Inl (TypeError
       (''EmscriptenHttpResponseWrapper._init_length() missing 1 required positional argument: ''
        @ [CHR 0x27] @ ''request_method'' @ [CHR 0x27]))"

subsection \<open>\<^verbatim>\<open>read\<close>\<close>

text \<open>
  Lines 129 to 132: a body that is not a stream is wrapped in \<^verbatim>\<open>BytesIO\<close>, and its length
  is assigned to \<^verbatim>\<open>length_remaining\<close>. The result is the wrapper after these lines and
  the stream that \<^verbatim>\<open>_response.body\<close> is then.
\<close>

definition wrap_body :: "wrapper \<Rightarrow> wrapper \<times> stream" where
  "wrap_body w =
     (case response_body w of
        Bytes b \<Rightarrow>
          (w\<lparr>length_remaining := Some (int (length b)), response_body := IOStream (BytesIO b)\<rparr>,
           BytesIO b)
      | IOStream s \<Rightarrow> (w, s))"

text \<open>
  \<^verbatim>\<open>if self.length_remaining>0: self.length_remaining = max(self.length_remaining-len(data),0)\<close>:
  comparing \<^verbatim>\<open>None\<close> with an integer raises \<^verbatim>\<open>TypeError\<close>.
\<close>

definition count_down :: "wrapper \<Rightarrow> bytes \<Rightarrow> error + wrapper" where
  "count_down w data =
     (case length_remaining w of
        None \<Rightarrow> Inl (TypeError ''> not supported between instances of NoneType and int'')
      | Some n \<Rightarrow>
          Inr (if 0 < n then w\<lparr>length_remaining := Some (max (n - int (length data)) 0)\<rparr> else w))"

text \<open>
  \<^verbatim>\<open>read(amt, decode_content, cache_content)\<close>; \<^verbatim>\<open>decode_content\<close> is never used. With an
  amount, the method ends in \<^verbatim>\<open>return typing.cast(bytes, read_data)\<close>, and nothing binds
  \<^verbatim>\<open>read_data\<close>.
\<close>

definition read :: "wrapper \<Rightarrow> int option \<Rightarrow> bool \<Rightarrow> wrapper \<times> (error + bytes)" where
  "read w amt cache_content =
     (case wrap_body w of
        (w1, s) \<Rightarrow>
          (case stream_read s amt of
             (s', Inl e) \<Rightarrow> (w1\<lparr>response_body := IOStream s'\<rparr>, Inl e)
           | (s', Inr data) \<Rightarrow>
               let w2 = w1\<lparr>response_body := IOStream s'\<rparr> in
               (case amt of
                  Some _ \<Rightarrow>
                    (case count_down w2 data of
                       Inl e \<Rightarrow> (w2, Inl e)
                     | Inr w3 \<Rightarrow> (w3, Inl (NameError ''read_data'')))
                | None \<Rightarrow>
                    let w3 = (if cache_content then w2\<lparr>body_cache := Some data\<rparr> else w2) in
                    (case count_down w3 data of
                       Inl e \<Rightarrow> (w3, Inl e)
                     | Inr w4 \<Rightarrow> (w4, Inr data)))))"

text \<open>A sequence of \<^verbatim>\<open>read\<close> calls, each with its amount and its cache flag; the results
  are dropped, the object is kept.\<close>

fun reads :: "wrapper \<Rightarrow> (int option \<times> bool) list \<Rightarrow> wrapper" where
  "reads w [] = w"
| "reads w ((amt, cache_content) # calls) = reads (fst (read w amt cache_content)) calls"

subsection \<open>\<^verbatim>\<open>read_chunked\<close>\<close>

text \<open>
  The generator, run until it stops: the chunks it yields, the exception that ends it
  (\<open>None\<close> when it ends at the \<^verbatim>\<open>break\<close>), and the wrapper it leaves.
\<close>

definition body_size :: "wrapper \<Rightarrow> nat" where
  "body_size w = (case response_body w of Bytes b \<Rightarrow> length b | IOStream s \<Rightarrow> length (pending s))"

function read_chunked :: "wrapper \<Rightarrow> int option \<Rightarrow> bytes list \<times> error option \<times> wrapper" where
  "read_chunked w amt =
     (case read w amt False of
        (w', Inl e) \<Rightarrow> ([], Some e, w')
      | (w', Inr chunk) \<Rightarrow>
          if chunk = [] then ([], None, w')
          else (case read_chunked w' amt of (chunks, r, w'') \<Rightarrow> (chunk # chunks, r, w'')))"
  by pat_completeness auto
termination
  by (relation "measure (\<lambda>(w, amt). body_size w)")
     (auto simp: read_def wrap_body_def stream_read_def count_down_def body_size_def BytesIO_def Let_def
           split: body.splits if_splits option.splits sum.splits prod.splits)

subsection \<open>\<^verbatim>\<open>release_conn\<close>, \<^verbatim>\<open>close\<close>, \<^verbatim>\<open>drain_conn\<close>\<close>

definition release_conn :: "wrapper \<Rightarrow> wrapper" where
  "release_conn w =
     (case pool w of
        None \<Rightarrow> w
      | Some returned \<Rightarrow>
          (case connection w of
             None \<Rightarrow> w
           | Some c \<Rightarrow> w\<lparr>pool := Some (returned @ [c]), connection := None\<rparr>))"

definition close :: "wrapper \<Rightarrow> wrapper" where
  "close w =
     (case response_body w of
        Bytes b \<Rightarrow> w
      | IOStream s \<Rightarrow> w\<lparr>response_body := IOStream (s\<lparr>is_closed := True\<rparr>)\<rparr>)"

definition drain_conn :: "wrapper \<Rightarrow> wrapper" where
  "drain_conn w = close w"

subsection \<open>\<^verbatim>\<open>data\<close> and \<^verbatim>\<open>json\<close>\<close>

text \<open>\<^verbatim>\<open>if self._body\<close> is false for \<^verbatim>\<open>None\<close> and for the empty bytes.\<close>

definition data :: "wrapper \<Rightarrow> wrapper \<times> (error + bytes)" where
  "data w =
     (case body_cache w of
        None \<Rightarrow> read w None True
      | Some b \<Rightarrow> if b \<noteq> [] then (w, Inr b) else read w None True)"

text \<open>
  \<^verbatim>\<open>bytes.decode("utf-8")\<close> and \<^verbatim>\<open>json.loads\<close> belong to the Python library; they are the
  parameters \<open>decode\<close> and \<open>loads\<close>, each returning its value or the exception it raises.
\<close>

definition json ::
  "(bytes \<Rightarrow> error + 't) \<Rightarrow> ('t \<Rightarrow> error + 'j) \<Rightarrow> wrapper \<Rightarrow> wrapper \<times> (error + 'j)" where
  "json decode loads w =
     (case data w of
        (w', Inl e) \<Rightarrow> (w', Inl e)
      | (w', Inr b) \<Rightarrow>
          (case decode b of
             Inl e \<Rightarrow> (w', Inl e)
           | Inr text \<Rightarrow> (w', loads text)))"

text \<open>The number of \<^verbatim>\<open>read\<close> calls that the body's stream has received.\<close>

definition stream_reads :: "wrapper \<Rightarrow> nat" where
  "stream_reads w = (case response_body w of Bytes b \<Rightarrow> 0 | IOStream s \<Rightarrow> read_calls s)"

subsection \<open>Example responses\<close>

definition example_wrapper :: "(string \<rightharpoonup> string) \<Rightarrow> int \<Rightarrow> bool \<Rightarrow> int option \<Rightarrow> body \<Rightarrow> wrapper" where
  "example_wrapper hs st ck len b =
     \<lparr>pool = None, body_cache = None, response_body = b, url = None, connection = None,
      retries = None, headers = hs, status = st, chunked = ck, length_remaining = len\<rparr>"

definition leased_wrapper :: wrapper where
  "leased_wrapper =
     (example_wrapper Map.empty 200 False None (Bytes ''ok''))\<lparr>pool := Some [], connection := Some 7\<rparr>"

definition redirected :: retry where
  "redirected =
     \<lparr>total = Some 2,
      history = [\<lparr>rh_method = Some ''GET'', rh_url = Some ''/a'', rh_status = Some 301,
                  redirect_location = Some ''/b''\<rparr>]\<rparr>"

definition declared_short :: wrapper where
  "declared_short = example_wrapper [''content-length'' \<mapsto> ''1''] 200 False (Some 1) (Bytes ''abc'')"

definition no_body_buffer :: wrapper where
  "no_body_buffer = example_wrapper Map.empty 204 False (Some 0) (Bytes ''abc'')"

definition drained_stream :: wrapper where
  "drained_stream = example_wrapper Map.empty 200 False (Some 0) (IOStream (BytesIO ''abc''))"

definition empty_response :: wrapper where
  "empty_response = example_wrapper [''content-length'' \<mapsto> ''0''] 200 False (Some 0) (Bytes [])"

definition hello_response :: wrapper where
  "hello_response =
     example_wrapper [''content-length'' \<mapsto> ''13''] 200 False (Some 13) (Bytes ''Hello, world!'')"

definition streamed_json :: wrapper where
  "streamed_json = example_wrapper Map.empty 200 False None (IOStream (BytesIO ''[1, 2]''))"

section \<open>Properties\<close>

subsection \<open>Parsing the header values\<close>

lemma split_comma_not_Nil: "split_comma s \<noteq> []"
  by (induction s) (auto split: list.splits)

lemma int_all_None_iff: "int_all vs = None \<longleftrightarrow> (\<exists>v \<in> set vs. py_int v = None)"
  by (induction vs) (auto split: option.splits)

lemma int_all_Some_map: "int_all vs = Some ns \<Longrightarrow> map py_int vs = map Some ns"
  by (induction vs arbitrary: ns) (auto split: option.splits)

lemma int_all_Some_set:
  assumes "int_all vs = Some ns"
  shows "Some ` set ns = py_int ` set vs"
proof -
  have "set (map Some ns) = set (map py_int vs)"
    using int_all_Some_map [OF assms] by simp
  then show ?thesis by simp
qed

lemma remdups_single: "set ns = {n} \<Longrightarrow> remdups ns = [n]"
proof (induction ns)
  case Nil
  then show ?case by simp
next
  case (Cons x xs)
  then have x: "x = n" by auto
  show ?case
  proof (cases "xs = []")
    case True
    with x show ?thesis by simp
  next
    case False
    then obtain y where "y \<in> set xs" by (cases xs) auto
    with Cons.prems x have "set xs = {n}" by auto
    with Cons.IH x show ?thesis by simp
  qed
qed

lemma int_all_equal:
  assumes "\<forall>v \<in> set vs. py_int v = Some n" and "vs \<noteq> []"
  shows "\<exists>ns. int_all vs = Some ns \<and> remdups ns = [n]"
proof -
  from assms(1) have "int_all vs \<noteq> None" by (simp add: int_all_None_iff)
  then obtain ns where ns: "int_all vs = Some ns" by auto
  from assms have "py_int ` set vs = {Some n}" by (cases vs) auto
  with int_all_Some_set [OF ns] have "Some ` set ns = {Some n}" by simp
  then have "set ns = {n}" by auto
  then have "remdups ns = [n]" by (rule remdups_single)
  with ns show ?thesis by blast
qed

lemma int_all_disagree:
  assumes "int_all vs = Some ns" and "a \<in> set vs" and "b \<in> set vs" and "py_int a \<noteq> py_int b"
  shows "1 < length (remdups ns)"
proof -
  have "py_int a \<in> Some ` set ns" and "py_int b \<in> Some ` set ns"
    using int_all_Some_set [OF assms(1)] assms(2,3) by auto
  then obtain x y where xy: "x \<in> set ns" "y \<in> set ns" "py_int a = Some x" "py_int b = Some y"
    by auto
  with assms(4) have "x \<noteq> y" by auto
  have "{x, y} \<subseteq> set ns" using xy by simp
  then have "card {x, y} \<le> card (set ns)" by (intro card_mono) simp_all
  with \<open>x \<noteq> y\<close> have "1 < card (set ns)" by simp
  then show ?thesis by (simp add: length_remdups_card_conv)
qed


lemma init_length_unparsed:
  assumes "headers w ''content-length'' = Some cl" and "\<not> chunked w"
    and "\<exists>v \<in> set (split_comma cl). py_int v = None"
  shows "init_length w m = Inr (if no_body (status w) m then Some 0 else None, [])"
proof -
  from assms(3) have "int_all (split_comma cl) = None" by (simp add: int_all_None_iff)
  with assms(1,2) show ?thesis by (simp add: init_length_def finish_length_def)
qed

lemma init_length_equal:
  assumes "headers w ''content-length'' = Some cl" and "\<not> chunked w"
    and "\<forall>v \<in> set (split_comma cl). py_int v = Some n"
  shows "init_length w m =
           Inr (if no_body (status w) m then Some 0 else if n < 0 then None else Some n, [])"
proof -
  from int_all_equal [OF assms(3) split_comma_not_Nil]
  obtain ns where "int_all (split_comma cl) = Some ns" and "remdups ns = [n]" by blast
  with assms(1,2) show ?thesis by (simp add: init_length_def finish_length_def)
qed

lemma init_length_disagree:
  assumes "headers w ''content-length'' = Some cl" and "\<not> chunked w"
    and "values_disagree cl"
  shows "init_length w m = Inl (NameError ''InvalidHeader'')"
proof -
  from assms(3) have "int_all (split_comma cl) \<noteq> None"
    by (simp add: values_disagree_def int_all_None_iff)
  then obtain ns where ns: "int_all (split_comma cl) = Some ns" by auto
  from assms(3) obtain a b where "a \<in> set (split_comma cl)" "b \<in> set (split_comma cl)"
    "py_int a \<noteq> py_int b" unfolding values_disagree_def by blast
  then have "1 < length (remdups ns)" by (rule int_all_disagree [OF ns])
  with ns assms(1,2) show ?thesis by (simp add: init_length_def)
qed

lemma int_all_42_43: "int_all (split_comma ''42, 43'') = Some [42, 43]"
  by code_simp

lemma int_all_abc: "int_all (split_comma ''abc'') = None"
  by code_simp

lemma int_all_42: "int_all (split_comma ''42'') = Some [42]"
  by code_simp

lemma int_all_1: "int_all (split_comma ''1'') = Some [1]"
  by code_simp

lemma int_all_1_2: "int_all (split_comma ''1, 2'') = Some [1, 2]"
  by code_simp

subsection \<open>The resolved length\<close>

text \<open>
  C1, as the claim states it, fails in three ways. With \<^verbatim>\<open>Content-Length: 42, 43\<close> the
  method does not return the unknown length: it reaches \<^verbatim>\<open>raise InvalidHeader(...)\<close> and
  an exception leaves the method. With \<^verbatim>\<open>Content-Length: abc\<close> it returns the unknown
  length, with no warning. With \<^verbatim>\<open>Content-Length: 42\<close> and status 204 it returns 0, not 42.
\<close>

theorem init_length_content_length_counterexample:
  "init_length (example_wrapper [''content-length'' \<mapsto> ''42, 43''] 200 False None (Bytes [])) (Some ''GET'')
     = Inl (NameError ''InvalidHeader'')
   \<and> init_length (example_wrapper [''content-length'' \<mapsto> ''abc''] 200 False None (Bytes [])) (Some ''GET'')
     = Inr (None, [])
   \<and> init_length (example_wrapper [''content-length'' \<mapsto> ''42''] 204 False None (Bytes [])) (Some ''GET'')
     = Inr (Some 0, [])"
  by (simp add: init_length_def finish_length_def no_body_def example_wrapper_def
        int_all_42_43 int_all_abc int_all_42 del: split_comma.simps int_all.simps)

text \<open>
  C1, amended. Let the Content-Length header be present and the transfer encoding not
  chunked. If every comma-separated value is the same integer \<open>n\<close> for \<^verbatim>\<open>int\<close>, the
  method returns \<open>n\<close> when \<open>n\<close> is not negative and the unknown length when it is
  negative. If some value is not an integer for \<^verbatim>\<open>int\<close>, the method returns the unknown
  length. In each of these cases the result is 0 instead when the status or the request
  method says that there is no body, and no warning is logged. If all values are integers
  and two of them differ, the method raises and returns no length.
\<close>

theorem init_length_content_length:
  assumes "headers w ''content-length'' = Some cl" and "\<not> chunked w"
  shows "((\<forall>v \<in> set (split_comma cl). py_int v = Some n) \<and> 0 \<le> n \<longrightarrow>
            init_length w m = Inr (if no_body (status w) m then Some 0 else Some n, []))
       \<and> ((\<forall>v \<in> set (split_comma cl). py_int v = Some n) \<and> n < 0 \<longrightarrow>
            init_length w m = Inr (if no_body (status w) m then Some 0 else None, []))
       \<and> ((\<exists>v \<in> set (split_comma cl). py_int v = None) \<longrightarrow>
            init_length w m = Inr (if no_body (status w) m then Some 0 else None, []))
       \<and> (values_disagree cl \<longrightarrow> (\<exists>e. init_length w m = Inl e))"
  using init_length_equal [OF assms, of n m] init_length_unparsed [OF assms, of m]
        init_length_disagree [OF assms, of m]
  by auto

theorem init_length_content_length_witness:
  "map py_int (split_comma ''42, 42'') = [Some 42, Some 42]
   \<and> init_length (example_wrapper [''content-length'' \<mapsto> ''42, 42''] 200 False None (Bytes []))
         (Some ''GET'') = Inr (Some 42, [])"
proof -
  let ?w = "example_wrapper [''content-length'' \<mapsto> ''42, 42''] 200 False None (Bytes [])"
  have h: "headers ?w ''content-length'' = Some ''42, 42''" and c: "\<not> chunked ?w"
    and st: "\<not> no_body (status ?w) (Some ''GET'')"
    by (simp_all add: example_wrapper_def no_body_def)
  have vals: "map py_int (split_comma ''42, 42'') = [Some 42, Some 42]"
    by code_simp
  then have "set (map py_int (split_comma ''42, 42'')) = {Some 42}"
    by (simp only: list.set insert_absorb2)
  then have all: "\<forall>v \<in> set (split_comma ''42, 42''). py_int v = Some 42"
    by (simp only: set_map) blast
  from init_length_content_length [OF h c, of 42 "Some ''GET''"] all st
  have "init_length ?w (Some ''GET'') = Inr (Some 42, [])"
    by simp
  with vals show ?thesis by (simp only: simp_thms)
qed

text \<open>
  C2. When both a Content-Length header and a chunked transfer encoding are present, the
  claim is that \<^verbatim>\<open>_init_length\<close> warns and returns the unknown length without raising.
  The method reaches \<^verbatim>\<open>log.warning\<close> first, and the module binds no \<^verbatim>\<open>log\<close>: for the
  response below, with \<^verbatim>\<open>Content-Length: 5\<close> and chunked encoding, the call raises
  \<^verbatim>\<open>NameError\<close> and returns nothing.
\<close>

theorem init_length_conflict_raises:
  "init_length (example_wrapper [''content-length'' \<mapsto> ''5''] 200 True None (Bytes ''hello'')) (Some ''GET'')
     = Inl (NameError ''log'')"
  by (simp add: init_length_def example_wrapper_def)

text \<open>
  C3, as the claim states it, fails: the result is not 0 regardless of the headers. With
  status 204, request method HEAD and \<^verbatim>\<open>Content-Length: 1, 2\<close>, and also with a
  Content-Length header and chunked encoding, the method is left before it reaches the
  check of the status and the request method, and returns no length.
\<close>

theorem init_length_no_body_counterexample:
  "init_length (example_wrapper [''content-length'' \<mapsto> ''1, 2''] 204 False None (Bytes [])) (Some ''HEAD'')
     = Inl (NameError ''InvalidHeader'')
   \<and> init_length (example_wrapper [''content-length'' \<mapsto> ''5''] 204 True None (Bytes [])) (Some ''HEAD'')
     = Inl (NameError ''log'')"
  by (simp add: init_length_def example_wrapper_def int_all_1_2
        del: split_comma.simps int_all.simps)

text \<open>
  C3, amended. Let the status be 204 or 304 or in the range from 100 to 199, or let the
  request method given to \<^verbatim>\<open>_init_length\<close> be HEAD. Then the method returns 0 when there
  is no Content-Length header, and when there is one, the encoding is not chunked and its
  values do not disagree. When there is a Content-Length header and the encoding is
  chunked or the values disagree, the method returns no length.
\<close>

theorem init_length_no_body:
  assumes "status w = 204 \<or> status w = 304 \<or> (100 \<le> status w \<and> status w < 200) \<or> m = Some ''HEAD''"
  shows "(headers w ''content-length'' = None \<longrightarrow> init_length w m = Inr (Some 0, []))
       \<and> (\<forall>cl. headers w ''content-length'' = Some cl \<and> \<not> chunked w \<and> \<not> values_disagree cl \<longrightarrow>
             init_length w m = Inr (Some 0, []))
       \<and> (\<forall>cl. headers w ''content-length'' = Some cl \<and> (chunked w \<or> values_disagree cl) \<longrightarrow>
             (\<exists>e. init_length w m = Inl e))"
proof (intro conjI allI impI)
  from assms have nb: "no_body (status w) m" by (auto simp: no_body_def)
  {
    assume "headers w ''content-length'' = None"
    with nb show "init_length w m = Inr (Some 0, [])"
      by (simp add: init_length_def finish_length_def)
  next
    fix cl
    assume a: "headers w ''content-length'' = Some cl \<and> \<not> chunked w \<and> \<not> values_disagree cl"
    then have h: "headers w ''content-length'' = Some cl" and c: "\<not> chunked w" by simp_all
    show "init_length w m = Inr (Some 0, [])"
    proof (cases "\<exists>v \<in> set (split_comma cl). py_int v = None")
      case True
      from init_length_unparsed [OF h c True, of m] nb show ?thesis by simp
    next
      case False
      obtain v0 where v0: "v0 \<in> set (split_comma cl)"
        using split_comma_not_Nil [of cl] by (cases "split_comma cl") auto
      with False obtain n where n: "py_int v0 = Some n" by auto
      have eq: "py_int a = py_int b"
        if "a \<in> set (split_comma cl)" and "b \<in> set (split_comma cl)" for a b
      proof (rule ccontr)
        assume ne: "py_int a \<noteq> py_int b"
        from False have "\<forall>v \<in> set (split_comma cl). py_int v \<noteq> None" by simp
        moreover from that ne
        have "\<exists>a \<in> set (split_comma cl). \<exists>b \<in> set (split_comma cl). py_int a \<noteq> py_int b"
          by (intro bexI [of _ a] bexI [of _ b])
        ultimately have "values_disagree cl"
          by (simp only: values_disagree_def)
        with a show False by simp
      qed
      have "\<forall>v \<in> set (split_comma cl). py_int v = Some n"
      proof
        fix v assume "v \<in> set (split_comma cl)"
        from eq [OF this v0] n show "py_int v = Some n" by simp
      qed
      from init_length_equal [OF h c this, of m] nb show ?thesis by simp
    qed
  next
    fix cl
    assume a: "headers w ''content-length'' = Some cl \<and> (chunked w \<or> values_disagree cl)"
    show "\<exists>e. init_length w m = Inl e"
    proof (cases "chunked w")
      case True
      with a show ?thesis by (simp add: init_length_def)
    next
      case False
      with a init_length_disagree [of w cl m] show ?thesis by auto
    qed
  }
qed

theorem init_length_no_body_witness:
  "status (example_wrapper [''content-length'' \<mapsto> ''42''] 204 False None (Bytes [])) = 204
   \<and> init_length (example_wrapper [''content-length'' \<mapsto> ''42''] 204 False None (Bytes []))
         (Some ''HEAD'') = Inr (Some 0, [])"
proof -
  let ?w = "example_wrapper [''content-length'' \<mapsto> ''42''] 204 False None (Bytes [])"
  have st: "status ?w = 204" and h: "headers ?w ''content-length'' = Some ''42''"
    and c: "\<not> chunked ?w"
    by (simp_all add: example_wrapper_def)
  have "split_comma ''42'' = [''42'']" by simp
  then have d: "\<not> values_disagree ''42''" by (simp add: values_disagree_def)
  from st have "status ?w = 204 \<or> status ?w = 304 \<or> (100 \<le> status ?w \<and> status ?w < 200)
      \<or> Some ''HEAD'' = Some ''HEAD''" by simp
  from init_length_no_body [OF this] h c d
  have "init_length ?w (Some ''HEAD'') = Inr (Some 0, [])" by blast
  with st show ?thesis by simp
qed

text \<open>
  The constructor never gets as far as a resolved length: its call of \<^verbatim>\<open>_init_length\<close>
  lacks the request method.
\<close>

lemma init_wrapper_raises: "\<exists>msg. init_wrapper internal_response u c = Inl (TypeError msg)"
  by (simp add: init_wrapper_def)

subsection \<open>Reading and the remaining length\<close>

lemmas read_defs = read_def wrap_body_def stream_read_def count_down_def BytesIO_def Let_def

lemma read_leaves_stream: "\<exists>s. response_body (fst (read w amt c)) = IOStream s"
  by (auto simp: read_defs split: body.splits option.splits)

lemma read_length_nonneg:
  assumes "length_remaining w = Some n" and "0 \<le> n"
  shows "\<exists>k. 0 \<le> k \<and> length_remaining (fst (read w amt c)) = Some k"
  using assms by (auto simp: read_defs split: body.splits option.splits)

lemma read_zero_stays:
  assumes "response_body w = IOStream s" and "length_remaining w = Some 0"
  shows "length_remaining (fst (read w amt c)) = Some 0"
  using assms by (auto simp: read_defs split: body.splits option.splits)

lemma reads_length_nonneg:
  assumes "length_remaining w = Some n" and "0 \<le> n"
  shows "\<exists>k. 0 \<le> k \<and> length_remaining (reads w calls) = Some k"
  using assms
proof (induction calls arbitrary: w n)
  case Nil
  then show ?case by simp
next
  case (Cons call calls)
  obtain amt c where call: "call = (amt, c)" by (cases call)
  from read_length_nonneg [OF Cons.prems, of amt c]
  obtain k where "0 \<le> k" and "length_remaining (fst (read w amt c)) = Some k" by blast
  from Cons.IH [OF this(2) this(1)] call show ?case by simp
qed

lemma reads_zero_stays:
  assumes "response_body w = IOStream s" and "length_remaining w = Some 0"
  shows "length_remaining (reads w calls) = Some 0"
  using assms
proof (induction calls arbitrary: w s)
  case Nil
  then show ?case by simp
next
  case (Cons call calls)
  obtain amt c where call: "call = (amt, c)" by (cases call)
  obtain s' where s': "response_body (fst (read w amt c)) = IOStream s'"
    using read_leaves_stream by blast
  from Cons.IH [OF s' read_zero_stays [OF Cons.prems]] call show ?case by simp
qed

lemma read_stream_decrement:
  assumes "response_body w = IOStream s" and "length_remaining w = Some n"
    and "read w amt c = (w', Inr bs)"
  shows "length_remaining w' = Some (if 0 < n then max (n - int (length bs)) 0 else n)"
  using assms by (auto simp: read_defs split: option.splits if_splits)

lemma read_buffer_decrement:
  assumes "response_body w = Bytes b" and "read w amt c = (w', Inr bs)"
  shows "length_remaining w' = Some (max (int (length b) - int (length bs)) 0)"
  using assms by (auto simp: read_defs split: option.splits if_splits)

lemma read_buffer_as_stream:
  assumes "response_body w = Bytes b"
  shows "read w amt c =
           read (w\<lparr>length_remaining := Some (int (length b)),
                   response_body := IOStream \<lparr>pending = b, is_closed = False, read_calls = 0\<rparr>\<rparr>) amt c"
  using assms by (simp add: read_def wrap_body_def BytesIO_def)

lemma read_buffer_body:
  assumes "response_body w = Bytes b"
  shows "response_body (fst (read w amt c)) =
           IOStream \<lparr>pending = drop (bytes_taken (length b) amt) b, is_closed = False, read_calls = 1\<rparr>"
  using assms by (auto simp: read_defs bytes_taken_def split: option.splits)

lemma read_buffer_length:
  assumes "response_body w = Bytes b"
  shows "length_remaining (fst (read w amt c)) =
           Some (int (length b) - int (bytes_taken (length b) amt))"
  using assms by (auto simp: read_defs bytes_taken_def split: option.splits)

lemma read_stream_length:
  assumes "response_body w = IOStream s" and "length_remaining w = Some n"
  shows "length_remaining (fst (read w amt c)) =
           Some (if 0 < n \<and> \<not> is_closed s
                 then max (n - int (bytes_taken (length (pending s)) amt)) 0 else n)"
  using assms by (auto simp: read_defs bytes_taken_def split: option.splits)

lemma read_stream_same_stream:
  assumes "response_body w = IOStream s"
  shows "\<exists>s'. response_body (fst (read w amt c)) = IOStream s' \<and> read_calls s' = Suc (read_calls s)
           \<and> is_closed s' = is_closed s"
  using assms by (auto simp: read_defs split: option.splits)

subsection \<open>The body: buffer and stream\<close>

text \<open>
  C9, as the claim states it, fails: the first read of a buffered body does not reconcile
  the buffer's length with the length that was resolved from the headers. For the
  response below, with \<^verbatim>\<open>Content-Length: 1\<close> and a three-byte buffer, the resolved length
  is 1; after \<^verbatim>\<open>read(0)\<close> the remaining length is 3, and after \<^verbatim>\<open>read(1)\<close> it is 2. Were
  the smaller value to win, it could not exceed 1.
\<close>

theorem read_buffer_baseline_counterexample:
  "init_length declared_short (Some ''GET'') = Inr (Some 1, [])
   \<and> length_remaining declared_short = Some 1
   \<and> response_body declared_short = Bytes ''abc''
   \<and> length_remaining (fst (read declared_short (Some 0) False)) = Some 3
   \<and> length_remaining (fst (read declared_short (Some 1) False)) = Some 2"
  by (simp add: declared_short_def example_wrapper_def init_length_def finish_length_def
        no_body_def int_all_1 read_defs del: split_comma.simps int_all.simps)

text \<open>
  C9, amended. A \<^verbatim>\<open>read\<close> call on a body that is an in-memory buffer does what the same
  call does on a fresh open stream over exactly those bytes with the buffer's length as
  the remaining length, whatever the remaining length was before. After the call the body
  is that stream, less the bytes the call took, and the remaining length is the buffer's
  length less the bytes the call took. A \<^verbatim>\<open>read\<close> call on a body that is a stream goes on
  with the same stream: the body is not wrapped a second time.
\<close>

theorem read_buffer_baseline:
  "(\<forall>b. response_body w = Bytes b \<longrightarrow>
        read w amt c =
          read (w\<lparr>length_remaining := Some (int (length b)),
                  response_body := IOStream \<lparr>pending = b, is_closed = False, read_calls = 0\<rparr>\<rparr>) amt c
        \<and> response_body (fst (read w amt c)) =
            IOStream \<lparr>pending = drop (bytes_taken (length b) amt) b, is_closed = False, read_calls = 1\<rparr>
        \<and> length_remaining (fst (read w amt c)) =
            Some (int (length b) - int (bytes_taken (length b) amt)))
   \<and> (\<forall>s. response_body w = IOStream s \<longrightarrow>
          (\<exists>s'. response_body (fst (read w amt c)) = IOStream s'
                \<and> read_calls s' = Suc (read_calls s) \<and> is_closed s' = is_closed s))"
  using read_buffer_as_stream [of w _ amt c] read_buffer_body [of w _ amt c]
        read_buffer_length [of w _ amt c] read_stream_same_stream [of w _ amt c]
  by blast

theorem read_buffer_baseline_witness:
  "response_body declared_short = Bytes ''abc''
   \<and> response_body (fst (read declared_short (Some 1) False)) =
       IOStream \<lparr>pending = ''bc'', is_closed = False, read_calls = 1\<rparr>
   \<and> length_remaining (fst (read declared_short (Some 1) False)) = Some 2"
proof -
  have b: "response_body declared_short = Bytes ''abc''"
    by (simp add: declared_short_def example_wrapper_def)
  from read_buffer_baseline [of declared_short "Some 1" False] b
  have "response_body (fst (read declared_short (Some 1) False)) =
          IOStream \<lparr>pending = drop (bytes_taken (length ''abc'') (Some 1)) ''abc'',
                    is_closed = False, read_calls = 1\<rparr>
        \<and> length_remaining (fst (read declared_short (Some 1) False)) =
          Some (int (length ''abc'') - int (bytes_taken (length ''abc'') (Some 1)))"
    by blast
  with b show ?thesis by (simp add: bytes_taken_def)
qed

subsection \<open>The remaining length\<close>

text \<open>
  C4, as the claim states it, fails: a remaining length that is 0 becomes positive again.
  The response below has status 204, so its resolved length is 0, and a three-byte
  buffer; after \<^verbatim>\<open>read(1)\<close> the remaining length is 2.
\<close>

theorem read_length_remaining_counterexample:
  "init_length no_body_buffer (Some ''GET'') = Inr (Some 0, [])
   \<and> length_remaining no_body_buffer = Some 0
   \<and> length_remaining (fst (read no_body_buffer (Some 1) False)) = Some 2"
  by (simp add: no_body_buffer_def example_wrapper_def init_length_def finish_length_def
        no_body_def read_defs)

text \<open>
  C4, amended. Over every sequence of \<^verbatim>\<open>read\<close> calls, a remaining length that is tracked
  and not negative stays tracked and not negative; and when the body is a stream, a
  remaining length of 0 stays 0. Every \<^verbatim>\<open>read\<close> call on a body that is an open stream
  with a positive remaining length \<open>n\<close> leaves \<open>max (n - taken) 0\<close>, where \<open>taken\<close>
  is the number of bytes the call takes from the stream; with \<open>n\<close> not positive, or
  the stream closed, it leaves \<open>n\<close>. Every \<^verbatim>\<open>read\<close> call on a body that is still a
  buffer leaves the buffer's length less the bytes the call takes, whatever the remaining
  length was, 0 included. In particular a call that returns leaves the remaining length
  counted down by the number of bytes returned, from \<open>n\<close> for a stream and from the
  buffer's length for a buffer, and not below 0.
\<close>

theorem read_length_remaining:
  "(\<forall>n. length_remaining w = Some n \<and> 0 \<le> n \<longrightarrow>
        (\<exists>k. 0 \<le> k \<and> length_remaining (reads w calls) = Some k))
   \<and> (\<forall>s. response_body w = IOStream s \<and> length_remaining w = Some 0 \<longrightarrow>
          length_remaining (reads w calls) = Some 0)
   \<and> (\<forall>s n. response_body w = IOStream s \<and> length_remaining w = Some n \<longrightarrow>
          length_remaining (fst (read w amt c)) =
            Some (if 0 < n \<and> \<not> is_closed s
                  then max (n - int (bytes_taken (length (pending s)) amt)) 0 else n))
   \<and> (\<forall>b. response_body w = Bytes b \<longrightarrow>
          length_remaining (fst (read w amt c)) =
            Some (int (length b) - int (bytes_taken (length b) amt)))
   \<and> (\<forall>s n w' bs. response_body w = IOStream s \<and> length_remaining w = Some n
          \<and> read w amt c = (w', Inr bs) \<longrightarrow>
          length_remaining w' = Some (if 0 < n then max (n - int (length bs)) 0 else n))
   \<and> (\<forall>b w' bs. response_body w = Bytes b \<and> read w amt c = (w', Inr bs) \<longrightarrow>
          length_remaining w' = Some (max (int (length b) - int (length bs)) 0))"
  using reads_length_nonneg [of w _ calls] reads_zero_stays [of w _ calls]
        read_stream_length [of w _ _ amt c] read_buffer_length [of w _ amt c]
        read_stream_decrement [of w _ _ amt c] read_buffer_decrement [of w _ amt c]
  by blast

theorem read_length_remaining_witness:
  "response_body drained_stream = IOStream (BytesIO ''abc'')
   \<and> length_remaining drained_stream = Some 0
   \<and> length_remaining (reads drained_stream [(None, False), (Some 1, False), (None, True)]) = Some 0
   \<and> response_body no_body_buffer = Bytes ''abc''
   \<and> length_remaining (fst (read no_body_buffer (Some 1) False)) = Some 2"
proof -
  have b: "response_body drained_stream = IOStream (BytesIO ''abc'')"
    and l: "length_remaining drained_stream = Some 0"
    by (simp_all add: drained_stream_def example_wrapper_def)
  from read_length_remaining [of drained_stream "[(None, False), (Some 1, False), (None, True)]"] b l
  have seq: "length_remaining (reads drained_stream [(None, False), (Some 1, False), (None, True)]) = Some 0"
    by blast
  have nb: "response_body no_body_buffer = Bytes ''abc''"
    by (simp add: no_body_buffer_def example_wrapper_def)
  from read_length_remaining [of no_body_buffer _ "Some 1" False] nb
  have "length_remaining (fst (read no_body_buffer (Some 1) False)) =
          Some (int (length ''abc'') - int (bytes_taken (length ''abc'') (Some 1)))"
    by blast
  then have one: "length_remaining (fst (read no_body_buffer (Some 1) False)) = Some 2"
    by (simp add: bytes_taken_def)
  from b l seq nb one show ?thesis by (simp only: simp_thms)
qed

subsection \<open>The cached body\<close>

lemma read_all_caches:
  assumes "read w None True = (w', Inr b)"
  shows "body_cache w' = Some b"
  using assms by (auto simp: read_defs split: body.splits option.splits if_splits)

lemma read_counts_call:
  assumes "response_body w = IOStream s"
  shows "stream_reads (fst (read w amt c)) = Suc (stream_reads w)"
  using assms by (auto simp: read_defs stream_reads_def split: option.splits)

lemma data_cached:
  assumes "body_cache w = Some b" and "b \<noteq> []"
  shows "data w = (w, Inr b)"
  using assms by (simp add: data_def)

lemma data_caches:
  assumes "data w = (w', Inr b)"
  shows "body_cache w' = Some b"
proof (cases "\<exists>b0. body_cache w = Some b0 \<and> b0 \<noteq> []")
  case True
  with assms show ?thesis by (auto simp: data_def)
next
  case False
  then have "data w = read w None True"
    by (auto simp: data_def split: option.splits)
  with assms show ?thesis by (simp add: read_all_caches)
qed

text \<open>A cached body that is not empty is returned also after the stream was closed.\<close>

lemma data_after_close:
  assumes "body_cache w = Some b" and "b \<noteq> []"
  shows "data (drain_conn w) = (drain_conn w, Inr b)"
proof -
  have "body_cache (drain_conn w) = body_cache w"
    by (simp add: drain_conn_def close_def split: body.splits)
  with assms show ?thesis by (simp add: data_cached)
qed

text \<open>
  When the cached body is not empty, \<^verbatim>\<open>data\<close> does what the claim C5 says: it returns
  the cached bytes and changes nothing, and a call that returns bytes that are not empty
  is followed by calls that return the same bytes without reading the stream.
\<close>

lemma data_nonempty_once:
  "(\<forall>b. body_cache w = Some b \<and> b \<noteq> [] \<longrightarrow> data w = (w, Inr b))
   \<and> (\<forall>w' b. data w = (w', Inr b) \<and> b \<noteq> [] \<longrightarrow> data w' = (w', Inr b))"
proof (intro conjI allI impI)
  fix b
  assume "body_cache w = Some b \<and> b \<noteq> []"
  then show "data w = (w, Inr b)" by (simp add: data_cached)
next
  fix w' b
  assume a: "data w = (w', Inr b) \<and> b \<noteq> []"
  then have "body_cache w' = Some b" using data_caches [of w w' b] by simp
  with a show "data w' = (w', Inr b)" by (simp add: data_cached)
qed

text \<open>
  C5. The claim is that two calls of \<^verbatim>\<open>data\<close> make one read pass over the stream, also
  for an empty body, and that a cached body is returned whatever the state of the body.
  For the empty body below, the first call reads the stream and stores the empty bytes
  in \<^verbatim>\<open>_body\<close>; \<^verbatim>\<open>if self._body\<close> is false for them, so the second call reads the
  stream again, and after \<^verbatim>\<open>drain_conn\<close> the next call raises \<^verbatim>\<open>ValueError\<close> from the
  closed stream. The thirteen-byte body is returned from the cache after \<^verbatim>\<open>drain_conn\<close>.
\<close>

theorem data_empty_body_reads_again:
  "data empty_response =
     (empty_response\<lparr>body_cache := Some [],
        response_body := IOStream \<lparr>pending = [], is_closed = False, read_calls = 1\<rparr>\<rparr>, Inr [])
   \<and> stream_reads (fst (data (fst (data empty_response)))) = 2
   \<and> snd (data (drain_conn (fst (data empty_response))))
       = Inl (ValueError ''I/O operation on closed file.'')
   \<and> snd (data (drain_conn (fst (data hello_response)))) = Inr ''Hello, world!''"
  by (simp add: empty_response_def hello_response_def example_wrapper_def data_def read_defs
        stream_reads_def drain_conn_def close_def)

subsection \<open>\<^verbatim>\<open>read_chunked\<close>\<close>

text \<open>
  Without an amount the generator behaves as the claim C6 says: when \<^verbatim>\<open>read(None)\<close> on
  the same wrapper returns, the chunks of \<^verbatim>\<open>read_chunked()\<close> concatenate to the bytes it
  returns, and the generator ends without an exception.
\<close>

lemma read_all_drains:
  assumes "read w None c = (w', Inr b)"
  shows "\<exists>s k. response_body w' = IOStream s \<and> pending s = [] \<and> \<not> is_closed s
           \<and> length_remaining w' = Some k"
  using assms by (auto simp: read_defs split: body.splits option.splits if_splits)

lemma read_drained:
  assumes "response_body w = IOStream s" and "pending s = []" and "\<not> is_closed s"
    and "length_remaining w = Some k"
  shows "snd (read w None c) = Inr []"
  using assms by (auto simp: read_defs)

lemma read_chunked_whole_body:
  assumes "read w None False = (w', Inr b)"
  shows "concat (fst (read_chunked w None)) = b \<and> fst (snd (read_chunked w None)) = None"
proof (cases "b = []")
  case True
  with assms show ?thesis by simp
next
  case False
  from read_all_drains [OF assms] obtain s k where
    "response_body w' = IOStream s" "pending s = []" "\<not> is_closed s" "length_remaining w' = Some k"
    by blast
  then have "snd (read w' None False) = Inr []" by (rule read_drained)
  then obtain w'' where "read w' None False = (w'', Inr [])"
    by (cases "read w' None False") auto
  then have "read_chunked w' None = ([], None, w'')" by simp
  with assms False show ?thesis by simp
qed

text \<open>
  C6. The claim is that \<^verbatim>\<open>read_chunked\<close> yields the chunks in read order and that they
  concatenate to the whole body. With an amount it does not: \<^verbatim>\<open>read(5)\<close> takes five
  bytes from the stream, counts the remaining length down and then raises \<^verbatim>\<open>NameError\<close>
  at \<^verbatim>\<open>return typing.cast(bytes, read_data)\<close>. For the thirteen-byte body below the
  generator yields no chunk, ends with that exception, and the five bytes are lost.
\<close>

theorem read_chunked_amount_raises:
  "read_chunked hello_response (Some 5) =
     ([], Some (NameError ''read_data''),
      hello_response\<lparr>length_remaining := Some 8,
        response_body := IOStream \<lparr>pending = '', world!'', is_closed = False, read_calls = 1\<rparr>\<rparr>)"
  by (simp add: hello_response_def example_wrapper_def read_defs)

subsection \<open>\<^verbatim>\<open>json\<close>\<close>

text \<open>
  When \<^verbatim>\<open>data\<close> returns, \<^verbatim>\<open>json\<close> returns what the decoder and the parser make of the
  bytes, and an exception of either leaves the method as it is.
\<close>

lemma json_of_data:
  assumes "data w = (w', Inr b)"
  shows "json decode loads w = (w', case decode b of Inl e \<Rightarrow> Inl e | Inr t \<Rightarrow> loads t)"
  using assms by (simp add: json_def split: sum.splits)

text \<open>
  C8. The claim is that \<^verbatim>\<open>json()\<close> returns the parsed value of every body that is valid
  JSON, and raises only the decoder's and the parser's exceptions. For a body that arrives
  as a stream, with no Content-Length header and hence no remaining length, \<^verbatim>\<open>data\<close>
  reads the stream and then compares \<^verbatim>\<open>None\<close> with 0: \<^verbatim>\<open>json()\<close> raises \<^verbatim>\<open>TypeError\<close>
  whatever the decoder and the parser are.
\<close>

theorem json_streamed_raises:
  "snd (json decode loads streamed_json)
     = Inl (TypeError ''> not supported between instances of NoneType and int'')"
  by (simp add: json_def data_def streamed_json_def example_wrapper_def read_defs)

subsection \<open>Releasing the connection\<close>

text \<open>
  C7. \<^verbatim>\<open>release_conn\<close> changes nothing when the wrapper has no pool or no connection.
  Otherwise the pool receives the held connection once and the wrapper's connection
  becomes \<^verbatim>\<open>None\<close>. Calling it twice leaves the same wrapper and the same pool as calling
  it once.
\<close>

theorem release_conn_once:
  "(pool w = None \<or> connection w = None \<longrightarrow> release_conn w = w)
   \<and> (\<forall>returned c. pool w = Some returned \<and> connection w = Some c \<longrightarrow>
         release_conn w = w\<lparr>pool := Some (returned @ [c]), connection := None\<rparr>)
   \<and> release_conn (release_conn w) = release_conn w"
  by (auto simp: release_conn_def split: option.splits)

theorem release_conn_once_witness:
  "pool leased_wrapper = Some [] \<and> connection leased_wrapper = Some 7
   \<and> pool (release_conn (release_conn leased_wrapper)) = Some [7]
   \<and> connection (release_conn (release_conn leased_wrapper)) = None"
proof -
  note inst = release_conn_once [of leased_wrapper]
  have p: "pool leased_wrapper = Some []" and c: "connection leased_wrapper = Some 7"
    by (simp_all add: leased_wrapper_def example_wrapper_def)
  from inst have twice: "release_conn (release_conn leased_wrapper) = release_conn leased_wrapper"
    by blast
  from inst p c have once:
    "release_conn leased_wrapper = leased_wrapper\<lparr>pool := Some ([] @ [7]), connection := None\<rparr>"
    by blast
  have "release_conn (release_conn leased_wrapper)
          = leased_wrapper\<lparr>pool := Some ([] @ [7]), connection := None\<rparr>"
    by (rule trans [OF twice once])
  then show ?thesis using p c by simp
qed

subsection \<open>The \<^verbatim>\<open>retries\<close> setter\<close>

text \<open>
  C10. The setter always stores the supplied value. It changes the url only when the
  value is not \<^verbatim>\<open>None\<close> and its history is not empty, and then the url becomes the
  redirect location of the last history entry. No other attribute changes.
\<close>

theorem set_retries_frame:
  "retries (set_retries w r) = r
   \<and> (\<forall>rt. r = Some rt \<and> history rt \<noteq> [] \<longrightarrow>
         url (set_retries w r) = redirect_location (last (history rt)))
   \<and> (r = None \<or> (\<exists>rt. r = Some rt \<and> history rt = []) \<longrightarrow> url (set_retries w r) = url w)
   \<and> set_retries w r = w\<lparr>url := url (set_retries w r), retries := r\<rparr>"
  by (auto simp: set_retries_def split: option.splits)

theorem set_retries_frame_witness:
  "history redirected \<noteq> []
   \<and> url (set_retries leased_wrapper (Some redirected)) = Some ''/b''
   \<and> retries (set_retries leased_wrapper (Some redirected)) = Some redirected
   \<and> url (set_retries leased_wrapper None) = url leased_wrapper"
  using set_retries_frame [of leased_wrapper "Some redirected"]
        set_retries_frame [of leased_wrapper None]
  by (simp add: redirected_def)

end
